theory Spec2Isabelle
  imports Complex_Main "HOL-Library.Multiset" "HOL-Library.Sublist"
begin

section \<open>Data model\<close>

text \<open>
  The downhole collection of \<^verbatim>\<open>downhole_collection.py\<close> and the attribute factory of
  \<^verbatim>\<open>attributes.py\<close>, embedded as HOL functions.

  Python floats are modelled as \<^typ>\<open>real\<close>: every value is finite, arithmetic and the
  trigonometric functions are exact, and there is no NaN among the numbers. A missing
  cell of a pandas series (NaN or None) is \<^term>\<open>None\<close>, a present one is \<^term>\<open>Some v\<close>.
  The three series that make a frame share one index (they are columns of one table,
  cut to the rows of one hole), so that the frame pairs their cells position by position.
\<close>

datatype error = ValueError | SchemaMismatchError

type_synonym series = "real option list"

text \<open>The frame of \<^verbatim>\<open>_compute_hole_bounding_box\<close>: one row per position, with the
  columns \<^verbatim>\<open>depth\<close>, \<^verbatim>\<open>dip\<close>, \<^verbatim>\<open>azimuth\<close> in this order.\<close>

type_synonym raw_row = "real option \<times> real option \<times> real option"
type_synonym row = "real \<times> real \<times> real"

definition DataFrame :: "series \<Rightarrow> series \<Rightarrow> series \<Rightarrow> raw_row list" where
  "DataFrame depths dips azimuths = zip depths (zip dips azimuths)"

text \<open>\<^verbatim>\<open>dropna(subset=["depth", "dip", "azimuth"])\<close>: a row stays when its three cells
  are present; the cells of the rows that stay are floats.\<close>

fun dropna :: "raw_row list \<Rightarrow> row list" where
  "dropna [] = []"
| "dropna ((Some d, Some p, Some a) # rs) = (d, p, a) # dropna rs"
| "dropna (r # rs) = dropna rs"

text \<open>\<^verbatim>\<open>sort_values("depth").reset_index(drop=True)\<close>: ascending in the depth column
  alone. Rows of equal depth keep their relative order here; the sort sees the depth
  column only, so no choice among tied rows can look at their dip or azimuth.\<close>

definition sort_values :: "row list \<Rightarrow> row list" where
  "sort_values df = sort_key fst df"

definition col_depth :: "row list \<Rightarrow> real list" where
  "col_depth df = map fst df"

definition col_dip :: "row list \<Rightarrow> real list" where
  "col_dip df = map (fst \<circ> snd) df"

definition col_azimuth :: "row list \<Rightarrow> real list" where
  "col_azimuth df = map (snd \<circ> snd) df"

subsection \<open>The numpy operations of the trajectory integration\<close>

definition deg2rad :: "real \<Rightarrow> real" where
  "deg2rad d = d * (pi / 180)"

text \<open>\<^verbatim>\<open>np.diff(a, prepend=p)\<close>: the forward differences of \<^verbatim>\<open>p\<close> followed by \<^verbatim>\<open>a\<close>.\<close>

fun np_diff_prepend :: "real \<Rightarrow> real list \<Rightarrow> real list" where
  "np_diff_prepend p [] = []"
| "np_diff_prepend p (d # ds) = (d - p) # np_diff_prepend d ds"

fun cumsum_from :: "real \<Rightarrow> real list \<Rightarrow> real list" where
  "cumsum_from acc [] = []"
| "cumsum_from acc (v # vs) = (acc + v) # cumsum_from (acc + v) vs"

definition np_cumsum :: "real list \<Rightarrow> real list" where
  "np_cumsum vs = cumsum_from 0 vs"

text \<open>The reductions \<^verbatim>\<open>min\<close> and \<^verbatim>\<open>max\<close> over a sequence with a first element. Every
  sequence reduced below has one: an array starts with the collar coordinate, and the
  list of boxes is tested for emptiness before it is reduced.\<close>

fun reduce_min :: "real list \<Rightarrow> real" where
  "reduce_min (v # vs) = fold (\<lambda>item best. if item < best then item else best) vs v"

fun reduce_max :: "real list \<Rightarrow> real" where
  "reduce_max (v # vs) = fold (\<lambda>item best. if item > best then item else best) vs v"

subsection \<open>Bounding boxes\<close>

record bbox =
  xmin :: real
  xmax :: real
  ymin :: real
  ymax :: real
  zmin :: real
  zmax :: real

definition compute_hole_bounding_box ::
  "real \<Rightarrow> real \<Rightarrow> real \<Rightarrow> series \<Rightarrow> series \<Rightarrow> series \<Rightarrow> bbox" where
  "compute_hole_bounding_box collar_x collar_y collar_z depths dips azimuths =
    (let df = sort_values (dropna (DataFrame depths dips azimuths));
         depth_vals = col_depth df;
         dip_rad = map deg2rad (col_dip df);
         az_rad = map deg2rad (col_azimuth df);
         step = np_diff_prepend 0 depth_vals;
         horiz = map2 (*) step (map sin dip_rad);
         dz_down = map2 (*) step (map cos dip_rad);
         dN = map2 (*) horiz (map cos az_rad);
         dE = map2 (*) horiz (map sin az_rad);
         dX = dE;
         dY = dN;
         dZ = map uminus dz_down;
         x = map ((+) collar_x) (np_cumsum dX);
         y = map ((+) collar_y) (np_cumsum dY);
         z = map ((+) collar_z) (np_cumsum dZ);
         xs = collar_x # x;
         ys = collar_y # y;
         zs = collar_z # z
     in \<lparr>xmin = reduce_min xs, xmax = reduce_max xs,
         ymin = reduce_min ys, ymax = reduce_max ys,
         zmin = reduce_min zs, zmax = reduce_max zs\<rparr>)"

definition combine_bounding_boxes :: "bbox list \<Rightarrow> error + real list" where
  "combine_bounding_boxes bboxes =
    (if bboxes = [] then Inl ValueError
     else Inr [reduce_min (map xmin bboxes), reduce_max (map xmax bboxes),
               reduce_min (map ymin bboxes), reduce_max (map ymax bboxes),
               reduce_min (map zmin bboxes), reduce_max (map zmax bboxes)])"

subsection \<open>Hole collars and measurement tables\<close>

text \<open>One row of \<^verbatim>\<open>HoleCollars.df\<close>, with the columns that \<^verbatim>\<open>get_bounding_box\<close> zips:
  \<^verbatim>\<open>hole_index\<close>, \<^verbatim>\<open>hole_id\<close>, \<^verbatim>\<open>x\<close>, \<^verbatim>\<open>y\<close>, \<^verbatim>\<open>z\<close>.\<close>

record collar =
  hole_index :: int
  hole_id :: string
  coord_x :: real
  coord_y :: real
  coord_z :: real

text \<open>Modelled from the spec: \<^verbatim>\<open>column_mapping.py\<close> is not among the sources. A column
  mapping names the source column of each semantic quantity.\<close>

record ColumnMapping =
  depth_column :: string
  top_column :: string
  base_column :: string
  dip_column :: string
  azimuth_column :: string

text \<open>Modelled from the spec: \<^verbatim>\<open>tables.py\<close> is not among the sources. A measurement table
  wraps tabular data, every row of which carries a hole index, and the column mapping that
  interprets it. It has two variants behind one query interface, the distance table and the
  interval table.\<close>

record measurement_df =
  hole_index_col :: "int list"
  columns :: "string \<rightharpoonup> series"

record adapter =
  table_df :: measurement_df
  mapping :: ColumnMapping

datatype MeasurementTableAdapter = DistanceTable adapter | IntervalTable adapter

datatype adapter_class = MeasurementTableAdapter_class | DistanceTable_class | IntervalTable_class

text \<open>Modelled from the spec: \<^verbatim>\<open>isinstance\<close> over the class hierarchy of \<^verbatim>\<open>tables.py\<close>,
  in which the two variants are the concrete subclasses of the abstract adapter.\<close>

fun isinstance :: "MeasurementTableAdapter \<Rightarrow> adapter_class \<Rightarrow> bool" where
  "isinstance m MeasurementTableAdapter_class = True"
| "isinstance (DistanceTable a) DistanceTable_class = True"
| "isinstance (IntervalTable a) IntervalTable_class = True"
| "isinstance m cls = False"

text \<open>Modelled from the spec: the per-hole queries of \<^verbatim>\<open>tables.py\<close>. A query returns the
  cells of the mapped column in the rows of the given hole index, in row order, missing
  cells passed through as missing; a mapped column that the table does not have fails with
  a schema mismatch when it is first used. The depth of an interval table is its top.\<close>

definition get_values :: "adapter \<Rightarrow> string \<Rightarrow> int \<Rightarrow> error + series" where
  "get_values a col filter_to_hole_index =
    (case columns (table_df a) col of
       None \<Rightarrow> Inl SchemaMismatchError
     | Some s \<Rightarrow>
         Inr (map snd (filter (\<lambda>(i, v). i = filter_to_hole_index)
                               (zip (hole_index_col (table_df a)) s))))"

fun get_depth_values :: "MeasurementTableAdapter \<Rightarrow> int \<Rightarrow> error + series" where
  "get_depth_values (DistanceTable a) h = get_values a (depth_column (mapping a)) h"
| "get_depth_values (IntervalTable a) h = get_values a (top_column (mapping a)) h"

fun get_dip_values :: "MeasurementTableAdapter \<Rightarrow> int \<Rightarrow> error + series" where
  "get_dip_values (DistanceTable a) h = get_values a (dip_column (mapping a)) h"
| "get_dip_values (IntervalTable a) h = get_values a (dip_column (mapping a)) h"

fun get_azimuth_values :: "MeasurementTableAdapter \<Rightarrow> int \<Rightarrow> error + series" where
  "get_azimuth_values (DistanceTable a) h = get_values a (azimuth_column (mapping a)) h"
| "get_azimuth_values (IntervalTable a) h = get_values a (azimuth_column (mapping a)) h"

text \<open>Modelled from the spec: \<^verbatim>\<open>_prepare_dataframe\<close> of \<^verbatim>\<open>tables.py\<close> caches the resolved
  column references and has no other effect, so the table after it answers as before.\<close>

definition prepare_dataframe :: "MeasurementTableAdapter \<Rightarrow> MeasurementTableAdapter" where
  "prepare_dataframe mt = mt"

subsection \<open>The collection\<close>

text \<open>The fields of \<^verbatim>\<open>DownholeCollection\<close> that its queries read. The metadata handed to
  the base class (name, uuid, description, tags, extensions, coordinate reference system)
  plays no part in them.\<close>

record DownholeCollection =
  collars :: "collar list"
  measurements :: "MeasurementTableAdapter list"

text \<open>The loop of \<^verbatim>\<open>get_measurement_tables\<close>, appending to \<^verbatim>\<open>results\<close>.\<close>

fun filter_loop ::
  "adapter_class list \<Rightarrow> MeasurementTableAdapter list \<Rightarrow> MeasurementTableAdapter list
    \<Rightarrow> MeasurementTableAdapter list" where
  "filter_loop flt [] results = results"
| "filter_loop flt (m # ms) results =
    filter_loop flt ms (if list_ex (\<lambda>cls. isinstance m cls) flt then results @ [m] else results)"

definition get_measurement_tables ::
  "DownholeCollection \<Rightarrow> adapter_class list option \<Rightarrow> MeasurementTableAdapter list" where
  "get_measurement_tables self flt =
    (case flt of
       None \<Rightarrow> measurements self
     | Some classes \<Rightarrow> filter_loop classes (measurements self) [])"

text \<open>The inner loop of \<^verbatim>\<open>get_bounding_box\<close> over the collar rows, for one table. An error
  of a query leaves the loop, as the exception does.\<close>

fun hole_loop ::
  "MeasurementTableAdapter \<Rightarrow> collar list \<Rightarrow> bbox list \<Rightarrow> error + bbox list" where
  "hole_loop mt [] bboxes = Inr bboxes"
| "hole_loop mt (c # cs) bboxes =
    (case get_depth_values mt (hole_index c) of
       Inl e \<Rightarrow> Inl e
     | Inr depths \<Rightarrow>
        (case get_dip_values mt (hole_index c) of
           Inl e \<Rightarrow> Inl e
         | Inr dips \<Rightarrow>
            (case get_azimuth_values mt (hole_index c) of
               Inl e \<Rightarrow> Inl e
             | Inr azimuths \<Rightarrow>
                 hole_loop mt cs
                   (bboxes @ [compute_hole_bounding_box (coord_x c) (coord_y c) (coord_z c)
                                depths dips azimuths]))))"

text \<open>The outer loop over the measurement tables.\<close>

fun table_loop ::
  "MeasurementTableAdapter list \<Rightarrow> collar list \<Rightarrow> bbox list \<Rightarrow> error + bbox list" where
  "table_loop [] collars_df bboxes = Inr bboxes"
| "table_loop (mt # mts) collars_df bboxes =
    (case hole_loop (prepare_dataframe mt) collars_df bboxes of
       Inl e \<Rightarrow> Inl e
     | Inr bboxes' \<Rightarrow> table_loop mts collars_df bboxes')"

text \<open>The result is the list of six floats, or the empty list.\<close>

definition get_bounding_box :: "DownholeCollection \<Rightarrow> error + real list" where
  "get_bounding_box self =
    (let collars_df = collars self;
         measurement_tables = get_measurement_tables self (Some [DistanceTable_class])
     in case table_loop measurement_tables collars_df [] of
          Inl e \<Rightarrow> Inl e
        | Inr bboxes \<Rightarrow> if bboxes \<noteq> [] then combine_bounding_boxes bboxes else Inr [])"

subsection \<open>The attribute factory\<close>

text \<open>The dtype of a pandas series, and the two tests of \<^verbatim>\<open>pandas.api.types\<close> on it:
  the floating-point dtypes, and the numeric ones (integers, floats and booleans).\<close>

datatype dtype = Float16 | Float32 | Float64 | Int32 | Int64 | UInt64 | Bool | Object | Datetime64

fun is_float_dtype :: "dtype \<Rightarrow> bool" where
  "is_float_dtype Float16 = True"
| "is_float_dtype Float32 = True"
| "is_float_dtype Float64 = True"
| "is_float_dtype d = False"

fun is_numeric_dtype :: "dtype \<Rightarrow> bool" where
  "is_numeric_dtype Object = False"
| "is_numeric_dtype Datetime64 = False"
| "is_numeric_dtype d = True"

text \<open>A series with its dtype, its cells and its \<^verbatim>\<open>attrs\<close> dictionary; the sentinel
  markers of a column are the entry \<^verbatim>\<open>nan_values\<close> of \<^verbatim>\<open>attrs\<close>.\<close>

record 'a pd_series =
  dtype :: dtype
  cells :: "'a list"
  attrs :: "string \<rightharpoonup> 'a list"

text \<open>The single-column arrow table of \<^verbatim>\<open>PyArrowTableFactory\<close>.\<close>

record 'a pa_table =
  column_name :: string
  column_type :: dtype
  column_data :: "'a list"

definition create_continuous_table :: "'a pd_series \<Rightarrow> 'a pa_table" where
  "create_continuous_table series =
    \<lparr>column_name = ''data'', column_type = Float64, column_data = cells series\<rparr>"

datatype 'a NanContinuous = NanContinuous (nan_values: "'a list")

datatype 'h FloatArray1 = FloatArray1_from_dict 'h

record ('a, 'h) ContinuousAttribute =
  key :: string
  name :: string
  nan_description :: "'a NanContinuous"
  values' :: "'h FloatArray1"

text \<open>The data client is outside the repository: \<^verbatim>\<open>save_table\<close> is the function from
  the table to the table info it answers with. The write itself is not modelled.\<close>

definition AttributeFactory_create ::
  "string \<Rightarrow> 'a pd_series \<Rightarrow> ('a pa_table \<Rightarrow> 'h) \<Rightarrow> ('a, 'h) ContinuousAttribute option" where
  "AttributeFactory_create nm series save_table =
    (let nan_values_list =
           (case attrs series ''nan_values'' of Some vs \<Rightarrow> vs | None \<Rightarrow> [])
     in if is_float_dtype (dtype series) then
          (let table = create_continuous_table series;
               table_info = save_table table;
               float_array = FloatArray1_from_dict table_info
           in Some \<lparr>key = nm, name = nm,
                    nan_description = NanContinuous nan_values_list,
                    values' = float_array\<rparr>)
        else None)"

subsection \<open>Predicates on rows and boxes\<close>






text \<open>The degenerate box of a collar position alone.\<close>

definition collar_box :: "collar \<Rightarrow> bbox" where
  "collar_box c =
    \<lparr>xmin = coord_x c, xmax = coord_x c, ymin = coord_y c, ymax = coord_y c,
     zmin = coord_z c, zmax = coord_z c\<rparr>"

text \<open>A table has no usable row for a hole when its three queries answer for the hole and
  no row of the frame built from the answers has its depth, dip and azimuth all present.\<close>

definition no_usable_rows :: "MeasurementTableAdapter \<Rightarrow> collar \<Rightarrow> bool" where
  "no_usable_rows mt c \<longleftrightarrow>
    (case (get_depth_values mt (hole_index c), get_dip_values mt (hole_index c),
           get_azimuth_values mt (hole_index c)) of
       (Inr depths, Inr dips, Inr azimuths) \<Rightarrow> dropna (DataFrame depths dips azimuths) = []
     | _ \<Rightarrow> False)"

subsection \<open>Example data\<close>

definition box_a :: bbox where
  "box_a = \<lparr>xmin = 0, xmax = 1, ymin = 0, ymax = 2, zmin = -5, zmax = 0\<rparr>"

definition box_b :: bbox where
  "box_b = \<lparr>xmin = -3, xmax = 0, ymin = 1, ymax = 4, zmin = -1, zmax = 7\<rparr>"

definition box_c :: bbox where
  "box_c = \<lparr>xmin = 2, xmax = 6, ymin = -2, ymax = 0, zmin = -9, zmax = -8\<rparr>"

definition default_mapping :: ColumnMapping where
  "default_mapping =
    \<lparr>depth_column = ''depth'', top_column = ''top'', base_column = ''base'',
     dip_column = ''dip'', azimuth_column = ''azimuth''\<rparr>"

definition collar_bh1 :: collar where
  "collar_bh1 = \<lparr>hole_index = 0, hole_id = ''BH1'', coord_x = 0, coord_y = 0, coord_z = 100\<rparr>"

definition collar_bh2 :: collar where
  "collar_bh2 = \<lparr>hole_index = 1, hole_id = ''BH2'', coord_x = 20, coord_y = -4, coord_z = 90\<rparr>"

text \<open>A survey of hole 0 with stations at depths 5 and 15, vertical.\<close>

definition vertical_survey :: MeasurementTableAdapter where
  "vertical_survey = DistanceTable
    \<lparr>table_df = \<lparr>hole_index_col = [0, 0],
                  columns = [''depth'' \<mapsto> [Some 5, Some 15], ''dip'' \<mapsto> [Some 0, Some 0],
                             ''azimuth'' \<mapsto> [Some 0, Some 0]]\<rparr>,
     mapping = default_mapping\<rparr>"

text \<open>The same stations with no dip recorded: no row of it is complete.\<close>

definition survey_without_dip :: MeasurementTableAdapter where
  "survey_without_dip = DistanceTable
    \<lparr>table_df = \<lparr>hole_index_col = [0, 0],
                  columns = [''depth'' \<mapsto> [Some 5, Some 15], ''dip'' \<mapsto> [None, None],
                             ''azimuth'' \<mapsto> [Some 0, Some 0]]\<rparr>,
     mapping = default_mapping\<rparr>"

definition lithology_intervals :: MeasurementTableAdapter where
  "lithology_intervals = IntervalTable
    \<lparr>table_df = \<lparr>hole_index_col = [0],
                  columns = [''top'' \<mapsto> [Some 0], ''base'' \<mapsto> [Some 3]]\<rparr>,
     mapping = default_mapping\<rparr>"

definition mixed_collection :: DownholeCollection where
  "mixed_collection =
    \<lparr>collars = [collar_bh1, collar_bh2],
     measurements = [lithology_intervals, vertical_survey, survey_without_dip]\<rparr>"

definition intervals_only_collection :: DownholeCollection where
  "intervals_only_collection = \<lparr>collars = [collar_bh1], measurements = [lithology_intervals]\<rparr>"

definition no_tables_collection :: DownholeCollection where
  "no_tables_collection = \<lparr>collars = [collar_bh1, collar_bh2], measurements = []\<rparr>"

definition surveyed_collection :: DownholeCollection where
  "surveyed_collection = \<lparr>collars = [collar_bh1, collar_bh2], measurements = [vertical_survey]\<rparr>"

definition unsurveyed_collection :: DownholeCollection where
  "unsurveyed_collection =
    \<lparr>collars = [collar_bh1, collar_bh2], measurements = [lithology_intervals, survey_without_dip]\<rparr>"

definition no_dip_collection :: DownholeCollection where
  "no_dip_collection = \<lparr>collars = [collar_bh1], measurements = [survey_without_dip]\<rparr>"

text \<open>A float column with one sentinel marker attached, and an integer column.\<close>

definition cone_resistance :: "real pd_series" where
  "cone_resistance =
    \<lparr>dtype = Float64, cells = [3/2, -999], attrs = [''nan_values'' \<mapsto> [-999]]\<rparr>"

definition blow_count :: "real pd_series" where
  "blow_count = \<lparr>dtype = Int64, cells = [1, 2, 3], attrs = Map.empty\<rparr>"

definition handle_of :: "real pa_table \<Rightarrow> string" where
  "handle_of t = ''table-'' @ column_name t"

section \<open>Properties\<close>

subsection \<open>Reductions\<close>

lemma reduce_min_Min: "vs \<noteq> [] \<Longrightarrow> reduce_min vs = Min (set vs)"
proof (cases vs)
  case Nil
  assume "vs \<noteq> []"
  with Nil show ?thesis by simp
next
  case (Cons v ws)
  have "(\<lambda>item best. if item < best then item else best) = (min :: real \<Rightarrow> real \<Rightarrow> real)"
    by (intro ext) (simp add: min_def)
  with Cons Min.set_eq_fold [of v ws] show ?thesis
    by simp
qed

lemma reduce_max_Max: "vs \<noteq> [] \<Longrightarrow> reduce_max vs = Max (set vs)"
proof (cases vs)
  case Nil
  assume "vs \<noteq> []"
  with Nil show ?thesis by simp
next
  case (Cons v ws)
  have "(\<lambda>item best. if item > best then item else best) = (max :: real \<Rightarrow> real \<Rightarrow> real)"
    by (intro ext) (simp add: max_def)
  with Cons Max.set_eq_fold [of v ws] show ?thesis
    by simp
qed

subsection \<open>The loops over tables and holes\<close>





lemma get_values_error: "get_values a col h = Inl e \<Longrightarrow> e = SchemaMismatchError"
  by (auto simp: get_values_def split: option.splits)

lemma hole_loop_error: "hole_loop mt cs bboxes = Inl e \<Longrightarrow> e = SchemaMismatchError"
proof (induction cs arbitrary: bboxes)
  case Nil
  then show ?case by simp
next
  case (Cons c cs)
  then show ?case
    by (cases mt) (auto split: sum.splits dest: get_values_error)
qed

lemma table_loop_error: "table_loop mts cs bboxes = Inl e \<Longrightarrow> e = SchemaMismatchError"
proof (induction mts arbitrary: bboxes)
  case Nil
  then show ?case by simp
next
  case (Cons mt mts)
  then show ?case
    by (auto split: sum.splits dest: hole_loop_error)
qed




lemma filter_loop_filter:
  "filter_loop flt ms results = results @ filter (\<lambda>m. \<exists>cls \<in> set flt. isinstance m cls) ms"
  by (induction ms arbitrary: results) (simp_all add: list_ex_iff)

subsection \<open>No usable rows\<close>

lemma compute_no_rows:
  "dropna (DataFrame depths dips azimuths) = [] \<Longrightarrow>
   compute_hole_bounding_box cx cy cz depths dips azimuths =
     \<lparr>xmin = cx, xmax = cx, ymin = cy, ymax = cy, zmin = cz, zmax = cz\<rparr>"
  by (simp add: compute_hole_bounding_box_def sort_values_def col_depth_def col_dip_def
      col_azimuth_def np_cumsum_def)

lemma hole_loop_step_no_rows:
  assumes "no_usable_rows mt c"
  shows "hole_loop mt (c # cs) bboxes = hole_loop mt cs (bboxes @ [collar_box c])"
proof -
  from assms obtain depths dips azimuths where
    q: "get_depth_values mt (hole_index c) = Inr depths"
       "get_dip_values mt (hole_index c) = Inr dips"
       "get_azimuth_values mt (hole_index c) = Inr azimuths"
    and e: "dropna (DataFrame depths dips azimuths) = []"
    unfolding no_usable_rows_def by (auto split: sum.splits)
  show ?thesis
    by (simp add: q compute_no_rows [OF e] collar_box_def)
qed

lemma hole_loop_no_rows:
  "\<forall>c \<in> set cs. no_usable_rows mt c \<Longrightarrow>
   hole_loop mt cs bboxes = Inr (bboxes @ map collar_box cs)"
proof (induction cs arbitrary: bboxes)
  case Nil
  then show ?case by simp
next
  case (Cons c cs)
  from Cons.prems have "no_usable_rows mt c" by simp
  then obtain depths dips azimuths where
    q: "get_depth_values mt (hole_index c) = Inr depths"
       "get_dip_values mt (hole_index c) = Inr dips"
       "get_azimuth_values mt (hole_index c) = Inr azimuths"
    and e: "dropna (DataFrame depths dips azimuths) = []"
    unfolding no_usable_rows_def by (auto split: sum.splits)
  from Cons.prems have r: "\<forall>c \<in> set cs. no_usable_rows mt c" by simp
  show ?case
    by (simp add: q compute_no_rows [OF e] Cons.IH [OF r] collar_box_def)
qed

lemma table_loop_no_rows:
  "\<forall>mt \<in> set mts. \<forall>c \<in> set cs. no_usable_rows mt c \<Longrightarrow>
   table_loop mts cs bboxes = Inr (bboxes @ concat (map (\<lambda>mt. map collar_box cs) mts))"
proof (induction mts arbitrary: bboxes)
  case Nil
  then show ?case by simp
next
  case (Cons mt mts)
  from Cons.prems have h: "\<forall>c \<in> set cs. no_usable_rows mt c"
    and r: "\<forall>mt \<in> set mts. \<forall>c \<in> set cs. no_usable_rows mt c"
    by simp_all
  show ?case
    by (simp add: prepare_dataframe_def hole_loop_no_rows [OF h] Cons.IH [OF r])
qed

lemma set_concat_const:
  "mts \<noteq> [] \<Longrightarrow> set (concat (map (\<lambda>mt. bs) mts)) = set bs"
  by (cases mts) auto

lemma combine_collar_boxes:
  assumes "mts \<noteq> []" and "cs \<noteq> []"
  shows "combine_bounding_boxes (concat (map (\<lambda>mt. map collar_box cs) mts)) =
    Inr [Min (coord_x ` set cs), Max (coord_x ` set cs),
         Min (coord_y ` set cs), Max (coord_y ` set cs),
         Min (coord_z ` set cs), Max (coord_z ` set cs)]"
proof -
  let ?bs = "concat (map (\<lambda>mt. map collar_box cs) mts)"
  have s: "set ?bs = collar_box ` set cs"
    using set_concat_const [OF assms(1), of "map collar_box cs"] by simp
  with assms(2) have ne: "?bs \<noteq> []" by auto
  have i: "xmin ` collar_box ` set cs = coord_x ` set cs"
      "xmax ` collar_box ` set cs = coord_x ` set cs"
      "ymin ` collar_box ` set cs = coord_y ` set cs"
      "ymax ` collar_box ` set cs = coord_y ` set cs"
      "zmin ` collar_box ` set cs = coord_z ` set cs"
      "zmax ` collar_box ` set cs = coord_z ` set cs"
    by (simp_all add: image_image collar_box_def)
  have m: "map f ?bs \<noteq> []" "set (map f ?bs) = f ` collar_box ` set cs" for f :: "bbox \<Rightarrow> real"
    using ne s by (simp_all del: set_concat)
  show ?thesis
    unfolding combine_bounding_boxes_def
    using ne by (simp only: if_False reduce_min_Min [OF m(1)] reduce_max_Max [OF m(1)] m(2) i)
qed

subsection \<open>The integration of a vertical hole\<close>

lemma length_np_diff_prepend [simp]: "length (np_diff_prepend p ds) = length ds"
  by (induction ds arbitrary: p) simp_all

lemma length_cumsum_from [simp]: "length (cumsum_from a vs) = length vs"
  by (induction vs arbitrary: a) simp_all












subsection \<open>Dropping and sorting rows\<close>






subsection \<open>Evaluation\<close>

lemmas evaluation = compute_hole_bounding_box_def DataFrame_def sort_values_def col_depth_def
  col_dip_def col_azimuth_def deg2rad_def np_cumsum_def

lemmas collection_evaluation = get_bounding_box_def get_measurement_tables_def
  prepare_dataframe_def get_values_def combine_bounding_boxes_def default_mapping_def
  collar_bh1_def collar_bh2_def vertical_survey_def survey_without_dip_def
  lithology_intervals_def

text \<open>
  In exact arithmetic, a single station at depth 10 with dip 90 and azimuth 0 takes the
  hole 10 to the north of its collar and leaves it at the collar's elevation. This is a
  fact of the real numbers: in binary64 the radians of 90 degrees are the double nearest
  to \<open>\<pi> / 2\<close>, whose cosine is about \<open>6.1e-17\<close> and not 0, so that the z of the station
  computed by the program is the collar's z less about \<open>6.1e-16\<close>, rounded. What the
  program returns there turns on that rounding, which these definitions do not have.
\<close>

lemma horizontal_station_exact_arithmetic:
  "compute_hole_bounding_box cx cy cz [Some 10] [Some 90] [Some 0] =
     \<lparr>xmin = cx, xmax = cx, ymin = cy, ymax = cy + 10, zmin = cz, zmax = cz\<rparr>"
  by (simp add: evaluation)

section \<open>The claims\<close>

text \<open>
  C1, as amended. For a hole none of whose rows has depth, dip and azimuth all present,
  \<^verbatim>\<open>_compute_hole_bounding_box\<close> returns the degenerate box of the collar position, and
  the loop of \<^verbatim>\<open>get_bounding_box\<close> appends that box for the hole and goes on, whatever
  the other holes of the table are. When every hole of every distance table is such a
  hole, \<^verbatim>\<open>get_bounding_box\<close> returns the empty list only if the collection has no
  distance table or no collar; otherwise it returns the box of the collar positions.
\<close>

theorem incomplete_holes_give_collar_boxes:
  "(dropna (DataFrame depths dips azimuths) = [] \<longrightarrow>
      compute_hole_bounding_box cx cy cz depths dips azimuths =
        \<lparr>xmin = cx, xmax = cx, ymin = cy, ymax = cy, zmin = cz, zmax = cz\<rparr>)
   \<and> (no_usable_rows mt c \<longrightarrow>
        hole_loop mt (c # cs) bboxes = hole_loop mt cs (bboxes @ [collar_box c]))
   \<and> ((\<forall>mt \<in> set (get_measurement_tables self (Some [DistanceTable_class])).
         \<forall>c \<in> set (collars self). no_usable_rows mt c) \<longrightarrow>
       get_bounding_box self =
         Inr (if get_measurement_tables self (Some [DistanceTable_class]) = [] \<or> collars self = []
              then []
              else [Min (coord_x ` set (collars self)), Max (coord_x ` set (collars self)),
                    Min (coord_y ` set (collars self)), Max (coord_y ` set (collars self)),
                    Min (coord_z ` set (collars self)), Max (coord_z ` set (collars self))]))"
proof (intro conjI impI)
  assume "dropna (DataFrame depths dips azimuths) = []"
  then show "compute_hole_bounding_box cx cy cz depths dips azimuths =
        \<lparr>xmin = cx, xmax = cx, ymin = cy, ymax = cy, zmin = cz, zmax = cz\<rparr>"
    by (rule compute_no_rows)
next
  assume "no_usable_rows mt c"
  then show "hole_loop mt (c # cs) bboxes = hole_loop mt cs (bboxes @ [collar_box c])"
    by (rule hole_loop_step_no_rows)
next
  let ?mts = "get_measurement_tables self (Some [DistanceTable_class])"
  let ?cs = "collars self"
  assume a: "\<forall>mt \<in> set ?mts. \<forall>c \<in> set ?cs. no_usable_rows mt c"
  let ?bs = "concat (map (\<lambda>mt. map collar_box ?cs) ?mts)"
  have tl: "table_loop ?mts ?cs [] = Inr ?bs"
    using table_loop_no_rows [OF a, of "[]"] by simp
  show "get_bounding_box self =
         Inr (if ?mts = [] \<or> ?cs = [] then []
              else [Min (coord_x ` set ?cs), Max (coord_x ` set ?cs),
                    Min (coord_y ` set ?cs), Max (coord_y ` set ?cs),
                    Min (coord_z ` set ?cs), Max (coord_z ` set ?cs)])"
  proof (cases "?mts = [] \<or> ?cs = []")
    case True
    then have "?bs = []" by auto
    with tl True show ?thesis
      by (simp add: get_bounding_box_def)
  next
    case False
    then have m: "?mts \<noteq> []" and c: "?cs \<noteq> []" by simp_all
    have "set ?bs = collar_box ` set ?cs"
      using set_concat_const [OF m, of "map collar_box ?cs"] by simp
    with c have ne: "?bs \<noteq> []" by auto
    from tl ne combine_collar_boxes [OF m c] False show ?thesis
      by (simp add: get_bounding_box_def Let_def del: concat_eq_Nil_conv)
  qed
qed

theorem incomplete_holes_give_collar_boxes_witness:
  "no_usable_rows survey_without_dip collar_bh1
   \<and> no_usable_rows survey_without_dip collar_bh2
   \<and> get_bounding_box unsurveyed_collection = Inr [0, 20, -4, 0, 90, 100]
   \<and> dropna (DataFrame [Some 5, Some 15] [None, None] [Some 0, Some 0]) = []
   \<and> compute_hole_bounding_box 0 0 100 [Some 5, Some 15] [None, None] [Some 0, Some 0] =
        \<lparr>xmin = 0, xmax = 0, ymin = 0, ymax = 0, zmin = 100, zmax = 100\<rparr>
   \<and> no_usable_rows vertical_survey collar_bh2
   \<and> hole_loop vertical_survey [collar_bh2, collar_bh1] [] =
        Inr [collar_box collar_bh2,
             \<lparr>xmin = 0, xmax = 0, ymin = 0, ymax = 0, zmin = 85, zmax = 100\<rparr>]"
proof -
  have n: "no_usable_rows survey_without_dip collar_bh1
      \<and> no_usable_rows survey_without_dip collar_bh2"
    by (simp add: no_usable_rows_def collection_evaluation DataFrame_def)
  have v: "no_usable_rows vertical_survey collar_bh2"
    by (simp add: no_usable_rows_def collection_evaluation DataFrame_def)
  have h: "hole_loop vertical_survey [collar_bh1] [collar_box collar_bh2] =
      Inr [collar_box collar_bh2,
           \<lparr>xmin = 0, xmax = 0, ymin = 0, ymax = 0, zmin = 85, zmax = 100\<rparr>]"
    by (simp add: collection_evaluation evaluation)
  have t: "get_measurement_tables unsurveyed_collection (Some [DistanceTable_class]) =
      [survey_without_dip]"
    by (simp add: unsurveyed_collection_def get_measurement_tables_def
        lithology_intervals_def survey_without_dip_def)
  have c: "collars unsurveyed_collection = [collar_bh1, collar_bh2]"
    by (simp add: unsurveyed_collection_def)
  have e: "dropna (DataFrame [Some 5, Some 15] [None, None] [Some 0, Some 0]) = []"
    by (simp add: DataFrame_def)
  from n t c have p: "\<forall>mt \<in> set (get_measurement_tables unsurveyed_collection
        (Some [DistanceTable_class])). \<forall>c \<in> set (collars unsurveyed_collection).
        no_usable_rows mt c"
    by simp
  from incomplete_holes_give_collar_boxes
    [of "[Some 5, Some 15]" "[None, None]" "[Some 0, Some 0]" 0 0 100
      vertical_survey collar_bh2 "[collar_bh1]" "[]" unsurveyed_collection]
    e v p
  have "compute_hole_bounding_box 0 0 100 [Some 5, Some 15] [None, None] [Some 0, Some 0] =
        \<lparr>xmin = 0, xmax = 0, ymin = 0, ymax = 0, zmin = 100, zmax = 100\<rparr>"
    and "hole_loop vertical_survey [collar_bh2, collar_bh1] [] =
        hole_loop vertical_survey [collar_bh1] ([] @ [collar_box collar_bh2])"
    and "get_bounding_box unsurveyed_collection =
      Inr (if get_measurement_tables unsurveyed_collection (Some [DistanceTable_class]) = []
              \<or> collars unsurveyed_collection = []
           then []
           else [Min (coord_x ` set (collars unsurveyed_collection)),
                 Max (coord_x ` set (collars unsurveyed_collection)),
                 Min (coord_y ` set (collars unsurveyed_collection)),
                 Max (coord_y ` set (collars unsurveyed_collection)),
                 Min (coord_z ` set (collars unsurveyed_collection)),
                 Max (coord_z ` set (collars unsurveyed_collection))])"
    by blast+
  with n e v h show ?thesis
    by (simp add: t c collar_bh1_def collar_bh2_def)
qed

text \<open>
  C1 as the claim has it fails on a hole whose two stations have no dip: the hole
  contributes the box of its collar, and the result is that box, not the empty list.
\<close>

theorem incomplete_hole_still_gives_box:
  "no_usable_rows survey_without_dip collar_bh1
   \<and> get_bounding_box no_dip_collection = Inr [0, 0, 0, 0, 100, 100]
   \<and> get_bounding_box no_dip_collection \<noteq> Inr []"
  by (simp add: no_usable_rows_def no_dip_collection_def survey_without_dip_def collar_bh1_def
        default_mapping_def get_bounding_box_def get_measurement_tables_def
        prepare_dataframe_def get_values_def compute_hole_bounding_box_def DataFrame_def
        sort_values_def col_depth_def col_dip_def col_azimuth_def deg2rad_def np_cumsum_def
        combine_bounding_boxes_def)







text \<open>
  C5. On a collection whose measurement list is empty, \<^verbatim>\<open>get_bounding_box\<close> returns
  the empty list and no error.
\<close>

theorem get_bounding_box_no_tables: "measurements self = [] \<Longrightarrow> get_bounding_box self = Inr []"
  by (simp add: get_bounding_box_def get_measurement_tables_def)

theorem get_bounding_box_no_tables_witness:
  "measurements no_tables_collection = [] \<and> get_bounding_box no_tables_collection = Inr []"
proof -
  have m: "measurements no_tables_collection = []"
    by (simp add: no_tables_collection_def)
  from m get_bounding_box_no_tables [OF m] show ?thesis by simp
qed

text \<open>
  C6. On a list of boxes that is not empty, \<^verbatim>\<open>_combine_bounding_boxes\<close> gives the same
  result for every permutation of the list, and the result is the smallest of the minima
  and the largest of the maxima on each axis. The boxes need not be valid for this.
\<close>

theorem combine_permutation_invariant:
  assumes "bboxes \<noteq> []" and "mset bboxes' = mset bboxes"
  shows "combine_bounding_boxes bboxes' = combine_bounding_boxes bboxes
    \<and> combine_bounding_boxes bboxes =
        Inr [Min (xmin ` set bboxes), Max (xmax ` set bboxes),
             Min (ymin ` set bboxes), Max (ymax ` set bboxes),
             Min (zmin ` set bboxes), Max (zmax ` set bboxes)]"
proof -
  have s: "set bboxes' = set bboxes"
    using assms(2) by (rule mset_eq_setD)
  with assms(1) have ne: "bboxes' \<noteq> []" by auto
  have eq: "combine_bounding_boxes bs =
        Inr [Min (xmin ` set bs), Max (xmax ` set bs),
             Min (ymin ` set bs), Max (ymax ` set bs),
             Min (zmin ` set bs), Max (zmax ` set bs)]" if "bs \<noteq> []" for bs
    using that by (simp add: combine_bounding_boxes_def reduce_min_Min reduce_max_Max)
  from eq [OF assms(1)] eq [OF ne] s show ?thesis by simp
qed

theorem combine_permutation_invariant_witness:
  "[box_a, box_b, box_c] \<noteq> [] \<and> mset [box_c, box_a, box_b] = mset [box_a, box_b, box_c]
   \<and> combine_bounding_boxes [box_c, box_a, box_b] = combine_bounding_boxes [box_a, box_b, box_c]
   \<and> combine_bounding_boxes [box_a, box_b, box_c] = Inr [-3, 6, -2, 4, -9, 7]"
proof -
  have m: "mset [box_c, box_a, box_b] = mset [box_a, box_b, box_c]" by simp
  have n: "[box_a, box_b, box_c] \<noteq> []" by simp
  from combine_permutation_invariant [OF n m] show ?thesis
    by (simp add: box_a_def box_b_def box_c_def)
qed

text \<open>
  C7. \<^verbatim>\<open>get_measurement_tables\<close> with a list of classes returns the tables that are
  instances of at least one of them, in the order of the measurement list, as a
  subsequence of it; without a filter it returns a list equal to the measurement list;
  when no table matches it returns the empty list; and with the distance-table class alone
  it returns the distance tables, no interval table among them.
\<close>

theorem get_measurement_tables_filter:
  "get_measurement_tables self (Some flt) =
      filter (\<lambda>m. \<exists>cls \<in> set flt. isinstance m cls) (measurements self)
   \<and> subseq (get_measurement_tables self (Some flt)) (measurements self)
   \<and> get_measurement_tables self None = measurements self
   \<and> ((\<forall>m \<in> set (measurements self). \<forall>cls \<in> set flt. \<not> isinstance m cls)
        \<longrightarrow> get_measurement_tables self (Some flt) = [])
   \<and> get_measurement_tables self (Some [DistanceTable_class]) =
        filter (\<lambda>m. \<exists>a. m = DistanceTable a) (measurements self)
   \<and> (\<forall>a. IntervalTable a \<notin> set (get_measurement_tables self (Some [DistanceTable_class])))"
proof -
  have f: "get_measurement_tables self (Some classes) =
      filter (\<lambda>m. \<exists>cls \<in> set classes. isinstance m cls) (measurements self)" for classes
    by (simp add: get_measurement_tables_def filter_loop_filter)
  have d: "(\<exists>cls \<in> set [DistanceTable_class]. isinstance m cls) \<longleftrightarrow> (\<exists>a. m = DistanceTable a)" for m
    by (cases m) simp_all
  have e: "get_measurement_tables self (Some [DistanceTable_class]) =
        filter (\<lambda>m. \<exists>a. m = DistanceTable a) (measurements self)"
    unfolding f d ..
  show ?thesis
  proof (intro conjI)
    show "get_measurement_tables self (Some flt) =
      filter (\<lambda>m. \<exists>cls \<in> set flt. isinstance m cls) (measurements self)"
      by (rule f)
    show "subseq (get_measurement_tables self (Some flt)) (measurements self)"
      by (simp add: f)
    show "get_measurement_tables self None = measurements self"
      by (simp add: get_measurement_tables_def)
    show "(\<forall>m \<in> set (measurements self). \<forall>cls \<in> set flt. \<not> isinstance m cls)
        \<longrightarrow> get_measurement_tables self (Some flt) = []"
      by (simp add: f filter_empty_conv)
    show "get_measurement_tables self (Some [DistanceTable_class]) =
        filter (\<lambda>m. \<exists>a. m = DistanceTable a) (measurements self)"
      by (rule e)
    show "\<forall>a. IntervalTable a \<notin> set (get_measurement_tables self (Some [DistanceTable_class]))"
      by (simp add: e)
  qed
qed

theorem get_measurement_tables_filter_witness:
  "get_measurement_tables mixed_collection (Some [DistanceTable_class]) =
      [vertical_survey, survey_without_dip]
   \<and> get_measurement_tables mixed_collection None =
      [lithology_intervals, vertical_survey, survey_without_dip]
   \<and> \<not> isinstance lithology_intervals DistanceTable_class
   \<and> get_measurement_tables intervals_only_collection (Some [DistanceTable_class]) = []"
  using get_measurement_tables_filter [of mixed_collection "[DistanceTable_class]"]
    get_measurement_tables_filter [of intervals_only_collection "[DistanceTable_class]"]
  by (simp add: mixed_collection_def intervals_only_collection_def lithology_intervals_def
      vertical_survey_def survey_without_dip_def)

text \<open>
  C8, as amended. On a column of a floating-point dtype, \<^verbatim>\<open>AttributeFactory.create\<close>
  returns the continuous attribute with the name as key and name, the handle that the
  client answers for the single-column table \<^verbatim>\<open>data\<close>, and the sentinel markers attached
  to the column (none when no marker is attached). On a column of any other dtype,
  an integer column among them, it returns \<^verbatim>\<open>None\<close>.
\<close>

theorem create_float_columns_only:
  "(is_float_dtype (dtype series) \<longrightarrow>
      AttributeFactory_create nm series save_table =
        Some \<lparr>key = nm, name = nm,
              nan_description =
                NanContinuous (case attrs series ''nan_values'' of Some vs \<Rightarrow> vs | None \<Rightarrow> []),
              values' = FloatArray1_from_dict
                (save_table \<lparr>column_name = ''data'', column_type = Float64,
                              column_data = cells series\<rparr>)\<rparr>)
   \<and> (\<not> is_float_dtype (dtype series) \<longrightarrow> AttributeFactory_create nm series save_table = None)"
  by (simp add: AttributeFactory_create_def create_continuous_table_def)

theorem create_float_columns_only_witness:
  "is_float_dtype (dtype cone_resistance)
   \<and> AttributeFactory_create ''coneResistance'' cone_resistance handle_of =
        Some \<lparr>key = ''coneResistance'', name = ''coneResistance'',
              nan_description = NanContinuous [-999],
              values' = FloatArray1_from_dict ''table-data''\<rparr>
   \<and> \<not> is_float_dtype (dtype blow_count)
   \<and> AttributeFactory_create ''blows'' blow_count handle_of = None"
  using create_float_columns_only [of cone_resistance "''coneResistance''" handle_of]
    create_float_columns_only [of blow_count "''blows''" handle_of]
  by (simp add: cone_resistance_def blow_count_def handle_of_def)

text \<open>
  C8 as the claim has it fails on an integer column: the column is numeric, and no
  attribute is made of it.
\<close>

theorem create_integer_column_skipped:
  "is_numeric_dtype (dtype blow_count)
   \<and> AttributeFactory_create ''blows'' blow_count handle_of = None"
  by (simp add: AttributeFactory_create_def blow_count_def)

text \<open>
  C9. \<^verbatim>\<open>_combine_bounding_boxes\<close> raises \<^verbatim>\<open>ValueError\<close> exactly when its list of boxes
  is empty; on a list that is not empty it returns a list of six floats. No call of
  \<^verbatim>\<open>get_bounding_box\<close> ends in that \<^verbatim>\<open>ValueError\<close>: the list is tested before it is
  combined, and the only error of the table queries is the schema mismatch.
\<close>

theorem combine_raises_iff_empty:
  "(combine_bounding_boxes bboxes = Inl ValueError \<longleftrightarrow> bboxes = [])
   \<and> (bboxes \<noteq> [] \<longrightarrow> (\<exists>box. combine_bounding_boxes bboxes = Inr box \<and> length box = 6))
   \<and> get_bounding_box self \<noteq> Inl ValueError"
proof (intro conjI)
  show "combine_bounding_boxes bboxes = Inl ValueError \<longleftrightarrow> bboxes = []"
    by (simp add: combine_bounding_boxes_def)
  show "bboxes \<noteq> [] \<longrightarrow> (\<exists>box. combine_bounding_boxes bboxes = Inr box \<and> length box = 6)"
    by (simp add: combine_bounding_boxes_def)
  show "get_bounding_box self \<noteq> Inl ValueError"
  proof
    assume a: "get_bounding_box self = Inl ValueError"
    show False
    proof (cases "table_loop (get_measurement_tables self (Some [DistanceTable_class])) (collars self) []")
      case (Inl e)
      with a table_loop_error [OF Inl] show False
        by (simp add: get_bounding_box_def)
    next
      case (Inr bboxes)
      with a show False
        by (simp add: get_bounding_box_def combine_bounding_boxes_def split: if_splits)
    qed
  qed
qed

theorem combine_raises_iff_empty_witness:
  "combine_bounding_boxes [] = Inl ValueError
   \<and> [box_a, box_b] \<noteq> []
   \<and> combine_bounding_boxes [box_a, box_b] \<noteq> Inl ValueError
   \<and> (\<exists>box. combine_bounding_boxes [box_a, box_b] = Inr box \<and> length box = 6)
   \<and> get_bounding_box surveyed_collection \<noteq> Inl ValueError"
  using combine_raises_iff_empty [of "[box_a, box_b]" surveyed_collection]
    combine_raises_iff_empty [of "[]" surveyed_collection]
  by simp



end
